theory Spec2Isabelle
  imports Complex_Main
begin

section \<open>SignAlexNet: the layer pipeline and the forward computation\<close>

text \<open>
  The development follows \<^verbatim>\<open>fate_llm/model_zoo/ipr/alexnet.py\<close>. A layer object is
  represented by the constructor call that made it; the three constructors the source
  calls are the three cases of \<open>layer\<close>. Every raise of the Python code is a value of
  \<open>error\<close>, and a computation that may raise returns \<open>error + 'a\<close>.
\<close>

subsection \<open>Data\<close>

datatype error = KeyError nat | IndexError | RuntimeError

datatype layer =
    is_MaxPool2d: MaxPool2d (pool_kernel: nat) (pool_stride: nat)
  | is_SignatureConv: SignatureConv (conv_in: nat) (conv_out: nat) (conv_kernel: nat)
      (conv_stride: nat) (conv_padding: nat)
  | is_ConvBlock: ConvBlock (conv_in: nat) (conv_out: nat) (conv_kernel: nat)
      (conv_stride: nat) (conv_padding: nat)

record ('l, 'c) SignAlexNet =
  features :: "'l list"
  classifier :: "'c"
  training :: bool

text \<open>Sequencing of computations that may raise: the first error ends the run.\<close>

definition ebind :: "error + 'a \<Rightarrow> ('a \<Rightarrow> error + 'b) \<Rightarrow> error + 'b" where
  "ebind r f = (case r of Inl e \<Rightarrow> Inl e | Inr v \<Rightarrow> f v)"

text \<open>A dictionary subscript \<^verbatim>\<open>d[k]\<close>: a missing key raises \<^verbatim>\<open>KeyError\<close>.\<close>

definition getitem :: "(nat \<rightharpoonup> 'a) \<Rightarrow> nat \<Rightarrow> error + 'a" where
  "getitem d k = (case d k of None \<Rightarrow> Inl (KeyError k) | Some v \<Rightarrow> Inr v)"

subsection \<open>Construction\<close>

definition in_channels :: nat where
  "in_channels = 3"

definition maxpoolidx :: "nat list" where
  "maxpoolidx = [1, 3, 7]"

definition signed_layer :: "nat list" where
  "signed_layer = [4, 5, 6]"

definition oups :: "nat \<rightharpoonup> nat" where
  "oups = map_of [(0, 64), (2, 192), (4, 384), (5, 256), (6, 256)]"

definition kp :: "nat \<rightharpoonup> nat \<times> nat" where
  "kp = map_of [(0, (5, 2)), (2, (5, 2)), (4, (3, 1)), (5, (3, 1)), (6, (3, 1))]"

text \<open>
  One pass of the body of \<^verbatim>\<open>for layeridx in range(8)\<close>. The loop state is the list
  \<^verbatim>\<open>layers\<close> and the running channel count \<^verbatim>\<open>inp\<close>. The subscripts are taken in the
  order the source takes them: \<^verbatim>\<open>kp[layeridx]\<close> twice, \<^verbatim>\<open>oups[layeridx]\<close> for the
  constructor call, and \<^verbatim>\<open>oups[layeridx]\<close> again for the new \<^verbatim>\<open>inp\<close>.
\<close>

definition loop_body :: "nat \<Rightarrow> layer list \<times> nat \<Rightarrow> error + (layer list \<times> nat)" where
  "loop_body layeridx st =
     (case st of (layers, inp) \<Rightarrow>
        if layeridx \<in> set maxpoolidx then Inr (layers @ [MaxPool2d 2 2], inp)
        else
          ebind (getitem kp layeridx) (\<lambda>kp0. let k = fst kp0 in
          ebind (getitem kp layeridx) (\<lambda>kp1. let p = snd kp1 in
          ebind
            (if layeridx \<in> set signed_layer
             then ebind (getitem oups layeridx)
                    (\<lambda>oup. Inr (layers @ [SignatureConv inp oup k 1 p]))
             else ebind (getitem oups layeridx)
                    (\<lambda>oup. Inr (layers @ [ConvBlock inp oup k 1 p])))
            (\<lambda>layers'. ebind (getitem oups layeridx) (\<lambda>inp'. Inr (layers', inp'))))))"

fun for_layeridx :: "nat list \<Rightarrow> layer list \<times> nat \<Rightarrow> error + (layer list \<times> nat)" where
  "for_layeridx [] st = Inr st"
| "for_layeridx (layeridx # rest) st = ebind (loop_body layeridx st) (for_layeridx rest)"

definition build_layers :: "error + layer list" where
  "build_layers = ebind (for_layeridx [0..<8] ([], in_channels)) (\<lambda>st. Inr (fst st))"

text \<open>
  The constructor. \<^verbatim>\<open>nn.Linear\<close> is a parameter: it receives the input width and the
  caller's \<^verbatim>\<open>num_classes\<close>, of any type \<open>'v\<close>, and either raises or returns the classifier
  object. \<^verbatim>\<open>super().__init__()\<close> sets the mode flag \<^verbatim>\<open>training\<close> to true.
\<close>

definition SignAlexNet_init ::
  "(nat \<Rightarrow> 'v \<Rightarrow> error + 'c) \<Rightarrow> 'v \<Rightarrow> error + (layer, 'c) SignAlexNet" where
  "SignAlexNet_init Linear num_classes =
     ebind build_layers (\<lambda>layers.
     ebind (Linear (4 * 4 * 256) num_classes) (\<lambda>c.
       Inr \<lparr>features = layers, classifier = c, training = True\<rparr>))"

subsection \<open>The forward computation\<close>

text \<open>
  The primitives \<^verbatim>\<open>forward\<close> calls are parameters, over any type \<open>'t\<close> of tensors:
  calling a layer object (\<^verbatim>\<open>m(x)\<close>), \<^verbatim>\<open>x.size(i)\<close>, \<^verbatim>\<open>x.view(...)\<close>, calling the
  classifier, and \<^verbatim>\<open>nn.functional.softmax(x, dim)\<close>. Each may raise. A call of a layer
  or of the classifier also returns the object it was called on, as the call left it:
  the source cannot see whether a collaborator writes to its own fields.
\<close>

record ('l, 'c, 't) torch =
  call_layer :: "'l \<Rightarrow> 't \<Rightarrow> (error + 't) \<times> 'l"
  tensor_size :: "'t \<Rightarrow> nat \<Rightarrow> error + nat"
  tensor_view :: "'t \<Rightarrow> int list \<Rightarrow> error + 't"
  call_linear :: "'c \<Rightarrow> 't \<Rightarrow> (error + 't) \<times> 'c"
  softmax :: "'t \<Rightarrow> nat \<Rightarrow> error + 't"

text \<open>
  \<^verbatim>\<open>for m in self.features: x = m(x)\<close>. The result is the tensor after the last layer,
  or the error of the first layer that raised, with the layer objects as the calls left
  them; the layers after a raising one are not called.
\<close>

fun for_m :: "('l \<Rightarrow> 't \<Rightarrow> (error + 't) \<times> 'l) \<Rightarrow> 'l list \<Rightarrow> 't \<Rightarrow> (error + 't) \<times> 'l list" where
  "for_m call [] x = (Inr x, [])"
| "for_m call (m # ms) x =
     (case call m x of
        (Inl e, m') \<Rightarrow> (Inl e, m' # ms)
      | (Inr y, m') \<Rightarrow> (case for_m call ms y of (r, ms') \<Rightarrow> (r, m' # ms')))"

text \<open>
  \<^verbatim>\<open>forward(self, x)\<close> returns what the Python call returns (or the error it raises)
  and the model object as the call left it.
\<close>

definition forward ::
  "('l, 'c, 't) torch \<Rightarrow> ('l, 'c) SignAlexNet \<Rightarrow> 't \<Rightarrow> (error + 't) \<times> ('l, 'c) SignAlexNet" where
  "forward T self x =
     (case for_m (call_layer T) (features self) x of (r1, fs) \<Rightarrow>
       (let self1 = self\<lparr>features := fs\<rparr> in
         (case r1 of
            Inl e \<Rightarrow> (Inl e, self1)
          | Inr x1 \<Rightarrow>
             (case tensor_size T x1 0 of
                Inl e \<Rightarrow> (Inl e, self1)
              | Inr n \<Rightarrow>
                 (case tensor_view T x1 [int n, - 1] of
                    Inl e \<Rightarrow> (Inl e, self1)
                  | Inr x2 \<Rightarrow>
                     (case call_linear T (classifier self1) x2 of (r3, c) \<Rightarrow>
                       (let self2 = self1\<lparr>classifier := c\<rparr> in
                         (case r3 of
                            Inl e \<Rightarrow> (Inl e, self2)
                          | Inr x3 \<Rightarrow>
                              if training self2 then (Inr x3, self2)
                              else (softmax T x3 1, self2)))))))))"

subsection \<open>The computation as the specification words it\<close>

text \<open>
  The specification's algorithm: thread the tensor through the layers in order, flatten
  per example, apply the linear classifier. Here only the values returned by the
  primitives are composed.
\<close>

definition out_layer :: "('l, 'c, 't) torch \<Rightarrow> 'l \<Rightarrow> 't \<Rightarrow> error + 't" where
  "out_layer T m x = fst (call_layer T m x)"

fun thread :: "('l \<Rightarrow> 't \<Rightarrow> error + 't) \<Rightarrow> 'l list \<Rightarrow> 't \<Rightarrow> error + 't" where
  "thread f [] x = Inr x"
| "thread f (m # ms) x = ebind (f m x) (thread f ms)"

definition flatten :: "('l, 'c, 't) torch \<Rightarrow> 't \<Rightarrow> error + 't" where
  "flatten T x = ebind (tensor_size T x 0) (\<lambda>n. tensor_view T x [int n, - 1])"

definition scores :: "('l, 'c, 't) torch \<Rightarrow> 'l list \<Rightarrow> 'c \<Rightarrow> 't \<Rightarrow> error + 't" where
  "scores T ls c x =
     ebind (thread (out_layer T) ls x) (\<lambda>x1.
     ebind (flatten T x1) (\<lambda>x2. fst (call_linear T c x2)))"

text \<open>The primitives have no side effect when every call returns its object unchanged.\<close>

definition effect_free :: "('l, 'c, 't) torch \<Rightarrow> bool" where
  "effect_free T =
     ((\<forall>m x. snd (call_layer T m x) = m) \<and> (\<forall>c x. snd (call_linear T c x) = c))"

text \<open>
  An object after a run is the object before it, changed at most by a call of its own.
\<close>

definition own_call :: "('o \<Rightarrow> 't \<Rightarrow> (error + 't) \<times> 'o) \<Rightarrow> 'o \<Rightarrow> 'o \<Rightarrow> bool" where
  "own_call call m m' = (m' = m \<or> (\<exists>x. m' = snd (call m x)))"

text \<open>
  The channel count that leaves a run of layers entered with \<open>c\<close> channels: a
  convolutional layer sets it to its output count, a pooling layer keeps it.
\<close>

fun channels_after :: "nat \<Rightarrow> layer list \<Rightarrow> nat" where
  "channels_after c [] = c"
| "channels_after c (l # ls) = channels_after (if is_MaxPool2d l then c else conv_out l) ls"

subsection \<open>The primitives on tensors\<close>

text \<open>
  An interpretation of the primitives in which a tensor has its sizes, its strides and
  its elements (over the reals, in row-major order of the sizes). It follows what PyTorch
  documents and does for \<^verbatim>\<open>MaxPool2d\<close>, \<^verbatim>\<open>Tensor.size\<close>, \<^verbatim>\<open>Tensor.view\<close>,
  \<^verbatim>\<open>Linear\<close> and \<^verbatim>\<open>softmax\<close>. A mismatch of sizes or of strides raises.
\<close>

record tensor =
  sizes :: "nat list"
  strides :: "nat list"
  vals :: "real list"

record linear =
  in_features :: nat
  out_features :: nat

text \<open>
  \<^verbatim>\<open>nn.Linear(in_features, out_features)\<close> with an integer width: the weight is
  allocated with \<^verbatim>\<open>out_features\<close> rows, and a negative dimension raises.
\<close>

definition nn_Linear :: "nat \<Rightarrow> int \<Rightarrow> error + linear" where
  "nn_Linear i out =
     (if out < 0 then Inl RuntimeError else Inr \<lparr>in_features = i, out_features = nat out\<rparr>)"

text \<open>
  The numbers the layers and the classifier compute depend on their weights and, for the
  two convolutional blocks, on code that is not among the sources. They are parameters:
  \<open>layer_val nu l t i\<close> is element \<open>i\<close> of the output of layer \<open>l\<close> on \<open>t\<close>, and
  \<open>linear_val nu c t i\<close> that of the classifier.
\<close>

record numerics =
  layer_val :: "layer \<Rightarrow> tensor \<Rightarrow> nat \<Rightarrow> real"
  linear_val :: "linear \<Rightarrow> tensor \<Rightarrow> nat \<Rightarrow> real"

definition zero_numerics :: numerics where
  "zero_numerics = \<lparr>layer_val = (\<lambda>l t i. 0), linear_val = (\<lambda>c t i. 0)\<rparr>"

definition zeros :: "nat \<Rightarrow> real list" where
  "zeros n = replicate n 0"

text \<open>
  The strides of a freshly allocated tensor in the default (contiguous) layout and in
  the channels-last layout of a 4-dimensional tensor.
\<close>

fun contiguous_strides :: "nat list \<Rightarrow> nat list" where
  "contiguous_strides [] = []"
| "contiguous_strides [d] = [1]"
| "contiguous_strides (d # d' # ds) =
     (max d' 1 * hd (contiguous_strides (d' # ds))) # contiguous_strides (d' # ds)"

definition channels_last_strides :: "nat list \<Rightarrow> nat list" where
  "channels_last_strides sz =
     (case sz of
        [n, c, h, w] \<Rightarrow> [h * w * c, 1, w * c, c]
      | _ \<Rightarrow> contiguous_strides sz)"

text \<open>
  Whether sizes and strides read as channels-last: the strides must not decrease along
  the dimensions taken in the order channel, width, height, batch, each at least the
  extent spanned so far; ambiguous cases count as the default layout.
\<close>

definition is_channels_last :: "nat list \<Rightarrow> nat list \<Rightarrow> bool" where
  "is_channels_last sz st =
     (case sz of
        [n, c, h, w] \<Rightarrow>
          (case st of
             [sn, sc, sh, sw] \<Rightarrow>
               0 < sc \<and> 0 < c \<and>
               0 < w \<and> sc * max c 1 \<le> sw \<and>
               0 < h \<and> sw * max w 1 \<le> sh \<and>
               0 < n \<and> sh * max h 1 \<le> sn \<and>
               (if sh * max h 1 = sc then False else True)
           | _ \<Rightarrow> False)
      | _ \<Rightarrow> False)"

text \<open>
  A convolution or a pooling allocates its output in the layout its input suggests:
  channels-last for an input that reads as channels-last, contiguous otherwise.
\<close>

definition like_strides :: "tensor \<Rightarrow> nat list \<Rightarrow> nat list" where
  "like_strides t out =
     (if is_channels_last (sizes t) (strides t) then channels_last_strides out
      else contiguous_strides out)"

text \<open>
  Modelled from the spec: the behaviour of \<^verbatim>\<open>ConvBlock\<close> and \<^verbatim>\<open>SignatureConv\<close>,
  whose module \<^verbatim>\<open>sign_block\<close> is not among the sources. Each takes
  \<^verbatim>\<open>(in_channels, out_channels, kernel_size, stride, padding)\<close>, accepts a 4-dimensional
  feature tensor with \<^verbatim>\<open>in_channels\<close> channels and returns one with \<^verbatim>\<open>out_channels\<close>
  channels; the spatial extent is that of a two-dimensional convolution.
\<close>

definition conv_shape :: "nat \<Rightarrow> nat \<Rightarrow> nat \<Rightarrow> nat \<Rightarrow> nat \<Rightarrow> nat list \<Rightarrow> error + nat list" where
  "conv_shape inp oup k s p sh =
     (case sh of
        [b, c, h, w] \<Rightarrow>
          if c = inp \<and> 0 < k \<and> 0 < s \<and> k \<le> h + 2 * p \<and> k \<le> w + 2 * p
          then Inr [b, oup, (h + 2 * p - k) div s + 1, (w + 2 * p - k) div s + 1]
          else Inl RuntimeError
      | _ \<Rightarrow> Inl RuntimeError)"

definition maxpool_shape :: "nat \<Rightarrow> nat \<Rightarrow> nat list \<Rightarrow> error + nat list" where
  "maxpool_shape k s sh =
     (case sh of
        [c, h, w] \<Rightarrow>
          if 0 < c \<and> 0 < k \<and> 0 < s \<and> k \<le> h \<and> k \<le> w
          then Inr [c, (h - k) div s + 1, (w - k) div s + 1]
          else Inl RuntimeError
      | [b, c, h, w] \<Rightarrow>
          if 0 < c \<and> 0 < k \<and> 0 < s \<and> k \<le> h \<and> k \<le> w
          then Inr [b, c, (h - k) div s + 1, (w - k) div s + 1]
          else Inl RuntimeError
      | _ \<Rightarrow> Inl RuntimeError)"

definition layer_shape :: "layer \<Rightarrow> nat list \<Rightarrow> error + nat list" where
  "layer_shape l sh =
     (case l of
        MaxPool2d k s \<Rightarrow> maxpool_shape k s sh
      | SignatureConv inp oup k s p \<Rightarrow> conv_shape inp oup k s p sh
      | ConvBlock inp oup k s p \<Rightarrow> conv_shape inp oup k s p sh)"

definition layer_tensor :: "numerics \<Rightarrow> layer \<Rightarrow> tensor \<Rightarrow> error + tensor" where
  "layer_tensor nu l t =
     (case layer_shape l (sizes t) of
        Inl e \<Rightarrow> Inl e
      | Inr out \<Rightarrow>
          Inr \<lparr>sizes = out, strides = like_strides t out,
               vals = map (layer_val nu l t) [0..<prod_list out]\<rparr>)"

definition size_tensor :: "tensor \<Rightarrow> nat \<Rightarrow> error + nat" where
  "size_tensor t i = (if i < length (sizes t) then Inr (sizes t ! i) else Inl IndexError)"

text \<open>
  The sizes \<^verbatim>\<open>view\<close> asks for, with at most one \<^verbatim>\<open>-1\<close>: the missing extent is
  inferred from the number of elements. It raises when another extent is negative, when
  two are \<^verbatim>\<open>-1\<close>, when the element counts do not agree, and when the extent to infer is
  ambiguous because the known extents multiply to zero.
\<close>

definition infer_size :: "int list \<Rightarrow> nat \<Rightarrow> error + nat list" where
  "infer_size shape numel =
     (let newsize = prod_list (map nat (filter (\<lambda>d. 0 \<le> d) shape));
          infer = length (filter (\<lambda>d. d = - 1) shape)
      in if list_ex (\<lambda>d. d < - 1) shape then Inl RuntimeError
         else if 1 < infer then Inl RuntimeError
         else if numel = newsize \<or> (infer = 1 \<and> 0 < newsize \<and> numel mod newsize = 0)
         then (if infer = 1
               then (if newsize = 0 then Inl RuntimeError
                     else Inr (map (\<lambda>d. if d = - 1 then numel div newsize else nat d) shape))
               else Inr (map nat shape))
         else Inl RuntimeError)"

text \<open>
  The strides of a view, when there are any: \<^verbatim>\<open>view\<close> never copies, so the new sizes
  must regroup the old dimensions chunk by chunk, a chunk being a run of old dimensions
  that lie contiguously in memory. Both lists of dimensions are walked from the last to
  the first. \<open>view_chunk\<close> takes new dimensions until they hold the elements of the
  chunk; \<open>stride_loop\<close> closes a chunk where the next old dimension does not continue
  it, and fails when the new dimensions do not hold exactly the chunk.
\<close>

fun view_chunk :: "nat \<Rightarrow> nat \<Rightarrow> nat list \<Rightarrow> nat \<Rightarrow> nat list \<Rightarrow> nat list \<times> nat \<times> nat list" where
  "view_chunk tensor_numel base [] view_numel acc = ([], view_numel, acc)"
| "view_chunk tensor_numel base (d # vrev) view_numel acc =
     (if view_numel < tensor_numel \<or> d = 1
      then view_chunk tensor_numel base vrev (view_numel * d) ((view_numel * base) # acc)
      else (d # vrev, view_numel, acc))"

definition chunk_ends :: "(nat \<times> nat) list \<Rightarrow> nat \<Rightarrow> nat \<Rightarrow> bool" where
  "chunk_ends rest tensor_numel base =
     (case rest of
        [] \<Rightarrow> True
      | (psz, pst) # _ \<Rightarrow>
          (if psz = 1 then False else if pst = tensor_numel * base then False else True))"

fun stride_loop ::
  "(nat \<times> nat) list \<Rightarrow> nat \<Rightarrow> nat \<Rightarrow> nat list \<Rightarrow> nat \<Rightarrow> nat list \<Rightarrow> nat list option" where
  "stride_loop [] base tensor_numel vrev view_numel acc =
     (if vrev = [] then Some acc else None)"
| "stride_loop ((sz, st) # rest) base tensor_numel vrev view_numel acc =
     (let tensor_numel' = tensor_numel * sz in
      if chunk_ends rest tensor_numel' base
      then (case view_chunk tensor_numel' base vrev view_numel acc of
              (vrev', view_numel', acc') \<Rightarrow>
                if view_numel' = tensor_numel'
                then (case rest of
                        [] \<Rightarrow> stride_loop [] base tensor_numel' vrev' view_numel' acc'
                      | (psz, pst) # _ \<Rightarrow> stride_loop rest pst 1 vrev' 1 acc')
                else None)
      else stride_loop rest base tensor_numel' vrev view_numel acc)"

definition compute_stride :: "nat list \<Rightarrow> nat list \<Rightarrow> nat list \<Rightarrow> nat list option" where
  "compute_stride oldshape oldstride newshape =
     (if oldshape = [] then Some (replicate (length newshape) 1)
      else if prod_list oldshape = 0
      then (if oldshape = newshape then Some oldstride
            else Some (contiguous_strides newshape))
      else stride_loop (rev (zip oldshape oldstride)) (last oldstride) 1 (rev newshape) 1 [])"

definition view_tensor :: "tensor \<Rightarrow> int list \<Rightarrow> error + tensor" where
  "view_tensor t shape =
     (case infer_size shape (prod_list (sizes t)) of
        Inl e \<Rightarrow> Inl e
      | Inr new \<Rightarrow>
          (case compute_stride (sizes t) (strides t) new of
             None \<Rightarrow> Inl RuntimeError
           | Some st \<Rightarrow> Inr \<lparr>sizes = new, strides = st, vals = vals t\<rparr>))"

definition linear_shape :: "linear \<Rightarrow> nat list \<Rightarrow> error + nat list" where
  "linear_shape c sh =
     (case rev sh of
        [] \<Rightarrow> Inl RuntimeError
      | d # ds \<Rightarrow> if d = in_features c then Inr (rev ds @ [out_features c])
                  else Inl RuntimeError)"

definition linear_tensor :: "numerics \<Rightarrow> linear \<Rightarrow> tensor \<Rightarrow> error + tensor" where
  "linear_tensor nu c t =
     (case linear_shape c (sizes t) of
        Inl e \<Rightarrow> Inl e
      | Inr out \<Rightarrow>
          Inr \<lparr>sizes = out, strides = contiguous_strides out,
               vals = map (linear_val nu c t) [0..<prod_list out]\<rparr>)"

text \<open>
  \<^verbatim>\<open>softmax(x, dim)\<close> as documented: every element is replaced by its exponential
  divided by the sum of the exponentials of the elements that differ from it in the
  index along \<open>dim\<close> only. With \<open>n\<close> the extent along \<open>dim\<close> and \<open>inner\<close> the number of
  elements of one index along \<open>dim\<close>, these are the elements \<open>inner\<close> apart, starting
  where the index along \<open>dim\<close> is 0.
\<close>

definition softmax_vals :: "nat list \<Rightarrow> nat \<Rightarrow> real list \<Rightarrow> real list" where
  "softmax_vals sz d v =
     (let n = sz ! d; inner = prod_list (drop (Suc d) sz)
      in map (\<lambda>i. exp (v ! i) /
                sum_list (map (\<lambda>k. exp (v ! (i - ((i div inner) mod n) * inner + k * inner)))
                  [0..<n]))
           [0..<length v])"

definition softmax_tensor :: "tensor \<Rightarrow> nat \<Rightarrow> error + tensor" where
  "softmax_tensor t d =
     (if d < length (sizes t) then Inr (t\<lparr>vals := softmax_vals (sizes t) d (vals t)\<rparr>)
      else Inl IndexError)"

definition torch_model :: "numerics \<Rightarrow> (layer, linear, tensor) torch" where
  "torch_model nu =
     \<lparr>call_layer = (\<lambda>l t. (layer_tensor nu l t, l)),
      tensor_size = size_tensor,
      tensor_view = view_tensor,
      call_linear = (\<lambda>c t. (linear_tensor nu c t, c)),
      softmax = softmax_tensor\<rparr>"

text \<open>
  A layer may keep state of its own that its call updates, which \<^verbatim>\<open>forward\<close> cannot
  see. Here a layer object is the constructor call together with a count of the calls
  made on it, and a call computes what it computes in \<open>torch_model\<close>.
\<close>

definition counting_model :: "numerics \<Rightarrow> (layer \<times> nat, linear, tensor) torch" where
  "counting_model nu =
     \<lparr>call_layer = (\<lambda>m t. (layer_tensor nu (fst m) t, (fst m, Suc (snd m)))),
      tensor_size = size_tensor,
      tensor_view = view_tensor,
      call_linear = (\<lambda>c t. (linear_tensor nu c t, c)),
      softmax = softmax_tensor\<rparr>"

subsection \<open>The construction loop evaluated\<close>

definition the_layers :: "layer list" where
  "the_layers =
     [ConvBlock 3 64 5 1 2, MaxPool2d 2 2, ConvBlock 64 192 5 1 2, MaxPool2d 2 2,
      SignatureConv 192 384 3 1 1, SignatureConv 384 256 3 1 1,
      SignatureConv 256 256 3 1 1, MaxPool2d 2 2]"

lemma range8: "[0..<8] = [0, 1, 2, 3, 4, 5, 6, 7]"
  by (simp add: upt_rec)

lemma build_layers_eq: "build_layers = Inr the_layers"
  by (simp add: build_layers_def range8 loop_body_def ebind_def getitem_def maxpoolidx_def
      signed_layer_def oups_def kp_def in_channels_def the_layers_def)

subsection \<open>Facts about the loops\<close>

lemma all_less_8: "(\<forall>i<8::nat. P i) \<longleftrightarrow> P 0 \<and> P 1 \<and> P 2 \<and> P 3 \<and> P 4 \<and> P 5 \<and> P 6 \<and> P 7"
proof
  assume "\<forall>i<8. P i"
  then show "P 0 \<and> P 1 \<and> P 2 \<and> P 3 \<and> P 4 \<and> P 5 \<and> P 6 \<and> P 7" by simp
next
  assume r: "P 0 \<and> P 1 \<and> P 2 \<and> P 3 \<and> P 4 \<and> P 5 \<and> P 6 \<and> P 7"
  show "\<forall>i<8. P i"
  proof (intro allI impI)
    fix i :: nat
    assume "i < 8"
    then have "i = 0 \<or> i = 1 \<or> i = 2 \<or> i = 3 \<or> i = 4 \<or> i = 5 \<or> i = 6 \<or> i = 7" by arith
    with r show "P i" by auto
  qed
qed

lemma init_eq:
  "SignAlexNet_init Linear n =
     (case Linear 4096 n of Inl e \<Rightarrow> Inl e
      | Inr c \<Rightarrow> Inr \<lparr>features = the_layers, classifier = c, training = True\<rparr>)"
  by (simp add: SignAlexNet_init_def build_layers_eq ebind_def)

lemma init_Inr:
  assumes "SignAlexNet_init Linear n = Inr m"
  shows "features m = the_layers" and "training m" and "Linear 4096 n = Inr (classifier m)"
  using assms by (auto simp: init_eq split: sum.splits)

lemma fst_for_m: "fst (for_m call ms x) = thread (\<lambda>m x. fst (call m x)) ms x"
proof (induction ms arbitrary: x)
  case Nil
  then show ?case by simp
next
  case (Cons m ms)
  obtain r m' where c: "call m x = (r, m')" by (cases "call m x")
  show ?case
  proof (cases r)
    case (Inl e)
    with c show ?thesis by (simp add: ebind_def)
  next
    case (Inr y)
    obtain r2 ms' where f: "for_m call ms y = (r2, ms')" by (cases "for_m call ms y")
    with Cons.IH[of y] have "r2 = thread (\<lambda>m x. fst (call m x)) ms y" by simp
    with c Inr f show ?thesis by (simp add: ebind_def)
  qed
qed

lemma snd_for_m: "(\<And>m x. snd (call m x) = m) \<Longrightarrow> snd (for_m call ms x) = ms"
proof (induction ms arbitrary: x)
  case Nil
  then show ?case by simp
next
  case (Cons m ms)
  obtain r m' where c: "call m x = (r, m')" by (cases "call m x")
  with Cons.prems[of m x] have m': "m' = m" by simp
  show ?case
  proof (cases r)
    case (Inl e)
    with c m' show ?thesis by simp
  next
    case (Inr y)
    obtain r2 ms' where f: "for_m call ms y = (r2, ms')" by (cases "for_m call ms y")
    with Cons.IH[of y] Cons.prems have "ms' = ms" by simp
    with c m' Inr f show ?thesis by simp
  qed
qed

lemma fst_forward:
  "fst (forward T self x) =
     ebind (scores T (features self) (classifier self) x)
       (\<lambda>y. if training self then Inr y else softmax T y 1)"
proof -
  obtain r1 fs where f: "for_m (call_layer T) (features self) x = (r1, fs)"
    by (cases "for_m (call_layer T) (features self) x")
  have t: "thread (out_layer T) (features self) x = r1"
    using fst_for_m[of "call_layer T" "features self" x] f by (simp add: out_layer_def[abs_def])
  show ?thesis
  proof (cases r1)
    case (Inl e)
    with f t show ?thesis by (simp add: forward_def scores_def ebind_def)
  next
    case r1: (Inr x1)
    show ?thesis
    proof (cases "tensor_size T x1 0")
      case (Inl e)
      with f t r1 show ?thesis by (simp add: forward_def scores_def flatten_def ebind_def)
    next
      case sz: (Inr n)
      show ?thesis
      proof (cases "tensor_view T x1 [int n, - 1]")
        case (Inl e)
        with f t r1 sz show ?thesis by (simp add: forward_def scores_def flatten_def ebind_def)
      next
        case vw: (Inr x2)
        obtain r3 c where l: "call_linear T (classifier self) x2 = (r3, c)"
          by (cases "call_linear T (classifier self) x2")
        show ?thesis
        proof (cases r3)
          case (Inl e)
          with f t r1 sz vw l show ?thesis
            by (simp add: forward_def scores_def flatten_def ebind_def)
        next
          case (Inr x3)
          with f t r1 sz vw l show ?thesis
            by (simp add: forward_def scores_def flatten_def ebind_def)
        qed
      qed
    qed
  qed
qed

lemma training_forward: "training (snd (forward T self x)) = training self"
  unfolding forward_def by (simp add: Let_def split: prod.splits sum.splits)

lemma snd_forward:
  assumes e: "effect_free T"
  shows "snd (forward T self x) = self"
proof -
  obtain r1 fs where f: "for_m (call_layer T) (features self) x = (r1, fs)"
    by (cases "for_m (call_layer T) (features self) x")
  have "snd (for_m (call_layer T) (features self) x) = features self"
    using e by (intro snd_for_m) (simp add: effect_free_def)
  with f have fs: "fs = features self" by simp
  show ?thesis
  proof (cases r1)
    case (Inl e)
    with f fs show ?thesis by (simp add: forward_def)
  next
    case r1: (Inr x1)
    show ?thesis
    proof (cases "tensor_size T x1 0")
      case (Inl e)
      with f fs r1 show ?thesis by (simp add: forward_def)
    next
      case sz: (Inr n)
      show ?thesis
      proof (cases "tensor_view T x1 [int n, - 1]")
        case (Inl e)
        with f fs r1 sz show ?thesis by (simp add: forward_def)
      next
        case vw: (Inr x2)
        obtain r3 c where l: "call_linear T (classifier self) x2 = (r3, c)"
          by (cases "call_linear T (classifier self) x2")
        from e have "snd (call_linear T (classifier self) x2) = classifier self"
          by (simp add: effect_free_def)
        with l have c: "c = classifier self" by simp
        from f fs r1 sz vw l c show ?thesis
          by (cases r3) (simp_all add: forward_def)
      qed
    qed
  qed
qed

subsection \<open>Facts about the tables and the constructor\<close>

lemma nn_Linear_Inr:
  "nn_Linear i N = Inr c \<Longrightarrow> 0 \<le> N \<and> in_features c = i \<and> int (out_features c) = N"
  by (auto simp: nn_Linear_def split: if_splits)

lemma init_nn_Linear:
  "0 \<le> N \<Longrightarrow> SignAlexNet_init nn_Linear N =
     Inr \<lparr>features = the_layers, classifier = \<lparr>in_features = 4096, out_features = nat N\<rparr>,
          training = True\<rparr>"
  by (simp add: init_eq nn_Linear_def)

lemma nth_the_layers:
  "the_layers ! 0 = ConvBlock 3 64 5 1 2" "the_layers ! 1 = MaxPool2d 2 2"
  "the_layers ! 2 = ConvBlock 64 192 5 1 2" "the_layers ! 3 = MaxPool2d 2 2"
  "the_layers ! 4 = SignatureConv 192 384 3 1 1" "the_layers ! 5 = SignatureConv 384 256 3 1 1"
  "the_layers ! 6 = SignatureConv 256 256 3 1 1" "the_layers ! 7 = MaxPool2d 2 2"
  "the_layers ! Suc 0 = MaxPool2d 2 2"
  by (simp_all add: the_layers_def)

lemma tables:
  "oups 0 = Some 64" "oups 1 = None" "oups 2 = Some 192" "oups 3 = None" "oups 4 = Some 384"
  "oups 5 = Some 256" "oups 6 = Some 256" "oups 7 = None"
  "kp 0 = Some (5, 2)" "kp 1 = None" "kp 2 = Some (5, 2)" "kp 3 = None" "kp 4 = Some (3, 1)"
  "kp 5 = Some (3, 1)" "kp 6 = Some (3, 1)" "kp 7 = None"
  "oups (Suc 0) = None" "kp (Suc 0) = None"
  by (simp_all add: oups_def kp_def)

lemma dom_tables: "dom oups = {0, 2, 4, 5, 6}" "dom kp = {0, 2, 4, 5, 6}"
  by (auto simp: oups_def kp_def split: if_splits)

lemma own_call_for_m: "list_all2 (own_call call) ms (snd (for_m call ms x))"
proof (induction ms arbitrary: x)
  case Nil
  then show ?case by simp
next
  case (Cons m ms)
  obtain r m' where c: "call m x = (r, m')" by (cases "call m x")
  then have o: "own_call call m m'" by (auto simp: own_call_def intro: exI[of _ x])
  have refl: "list_all2 (own_call call) ms ms"
    by (simp add: list_all2_same own_call_def)
  show ?case
  proof (cases r)
    case (Inl e)
    with c o refl show ?thesis by simp
  next
    case (Inr y)
    obtain r2 ms' where f: "for_m call ms y = (r2, ms')" by (cases "for_m call ms y")
    with Cons.IH[of y] have "list_all2 (own_call call) ms ms'" by simp
    with c o Inr f show ?thesis by simp
  qed
qed

lemma own_call_forward:
  "list_all2 (own_call (call_layer T)) (features self) (features (snd (forward T self x))) \<and>
   own_call (call_linear T) (classifier self) (classifier (snd (forward T self x)))"
proof -
  obtain r1 fs where f: "for_m (call_layer T) (features self) x = (r1, fs)"
    by (cases "for_m (call_layer T) (features self) x")
  with own_call_for_m[of "call_layer T" "features self" x]
  have fs: "list_all2 (own_call (call_layer T)) (features self) fs" by simp
  have same: "own_call (call_linear T) (classifier self) (classifier self)"
    by (simp add: own_call_def)
  show ?thesis
  proof (cases r1)
    case (Inl e)
    with f fs same show ?thesis by (simp add: forward_def)
  next
    case r1: (Inr x1)
    show ?thesis
    proof (cases "tensor_size T x1 0")
      case (Inl e)
      with f fs same r1 show ?thesis by (simp add: forward_def)
    next
      case sz: (Inr n)
      show ?thesis
      proof (cases "tensor_view T x1 [int n, - 1]")
        case (Inl e)
        with f fs same r1 sz show ?thesis by (simp add: forward_def)
      next
        case vw: (Inr x2)
        obtain r3 c where l: "call_linear T (classifier self) x2 = (r3, c)"
          by (cases "call_linear T (classifier self) x2")
        then have c: "own_call (call_linear T) (classifier self) c"
          by (auto simp: own_call_def intro: exI[of _ x2])
        from f fs r1 sz vw l c show ?thesis
          by (cases r3) (simp_all add: forward_def Let_def)
      qed
    qed
  qed
qed

lemma thread_the_layers:
  "thread f the_layers x =
     ebind (f (ConvBlock 3 64 5 1 2) x) (\<lambda>x.
     ebind (f (MaxPool2d 2 2) x) (\<lambda>x.
     ebind (f (ConvBlock 64 192 5 1 2) x) (\<lambda>x.
     ebind (f (MaxPool2d 2 2) x) (\<lambda>x.
     ebind (f (SignatureConv 192 384 3 1 1) x) (\<lambda>x.
     ebind (f (SignatureConv 384 256 3 1 1) x) (\<lambda>x.
     ebind (f (SignatureConv 256 256 3 1 1) x) (\<lambda>x.
     f (MaxPool2d 2 2) x)))))))"
  by (simp add: the_layers_def ebind_def split: sum.splits)

subsection \<open>Facts about the primitives on tensors\<close>

lemma layer_step:
  assumes "sizes t = sz" and "strides t = st" and "layer_shape l sz = Inr out"
    and "\<not> is_channels_last sz st"
  shows "\<exists>t'. out_layer (torch_model nu) l t = Inr t' \<and> sizes t' = out \<and>
           strides t' = contiguous_strides out"
  using assms by (simp add: out_layer_def torch_model_def layer_tensor_def like_strides_def)

lemma layer_step_channels_last:
  assumes "sizes t = sz" and "strides t = st" and "layer_shape l sz = Inr out"
    and "is_channels_last sz st"
  shows "\<exists>t'. out_layer (torch_model nu) l t = Inr t' \<and> sizes t' = out \<and>
           strides t' = channels_last_strides out"
  using assms by (simp add: out_layer_def torch_model_def layer_tensor_def like_strides_def)

lemma layer_shapes:
  "layer_shape (ConvBlock 3 64 5 1 2) [B, 3, 32, 32] = Inr [B, 64, 32, 32]"
  "layer_shape (MaxPool2d 2 2) [B, 64, 32, 32] = Inr [B, 64, 16, 16]"
  "layer_shape (ConvBlock 64 192 5 1 2) [B, 64, 16, 16] = Inr [B, 192, 16, 16]"
  "layer_shape (MaxPool2d 2 2) [B, 192, 16, 16] = Inr [B, 192, 8, 8]"
  "layer_shape (SignatureConv 192 384 3 1 1) [B, 192, 8, 8] = Inr [B, 384, 8, 8]"
  "layer_shape (SignatureConv 384 256 3 1 1) [B, 384, 8, 8] = Inr [B, 256, 8, 8]"
  "layer_shape (SignatureConv 256 256 3 1 1) [B, 256, 8, 8] = Inr [B, 256, 8, 8]"
  "layer_shape (MaxPool2d 2 2) [B, 256, 8, 8] = Inr [B, 256, 4, 4]"
  by (simp_all add: layer_shape_def conv_shape_def maxpool_shape_def)

lemma contiguous_not_channels_last:
  "\<not> is_channels_last [B, 64, 32, 32] (contiguous_strides [B, 64, 32, 32])"
  "\<not> is_channels_last [B, 64, 16, 16] (contiguous_strides [B, 64, 16, 16])"
  "\<not> is_channels_last [B, 192, 16, 16] (contiguous_strides [B, 192, 16, 16])"
  "\<not> is_channels_last [B, 192, 8, 8] (contiguous_strides [B, 192, 8, 8])"
  "\<not> is_channels_last [B, 384, 8, 8] (contiguous_strides [B, 384, 8, 8])"
  "\<not> is_channels_last [B, 256, 8, 8] (contiguous_strides [B, 256, 8, 8])"
  by (simp_all add: is_channels_last_def)

lemma channels_last_kept:
  "0 < B \<Longrightarrow> is_channels_last [B, 64, 32, 32] (channels_last_strides [B, 64, 32, 32])"
  "0 < B \<Longrightarrow> is_channels_last [B, 64, 16, 16] (channels_last_strides [B, 64, 16, 16])"
  "0 < B \<Longrightarrow> is_channels_last [B, 192, 16, 16] (channels_last_strides [B, 192, 16, 16])"
  "0 < B \<Longrightarrow> is_channels_last [B, 192, 8, 8] (channels_last_strides [B, 192, 8, 8])"
  "0 < B \<Longrightarrow> is_channels_last [B, 384, 8, 8] (channels_last_strides [B, 384, 8, 8])"
  "0 < B \<Longrightarrow> is_channels_last [B, 256, 8, 8] (channels_last_strides [B, 256, 8, 8])"
  by (simp_all add: is_channels_last_def channels_last_strides_def)

lemma layers_contiguous:
  assumes nc: "\<not> is_channels_last [B, 3, 32, 32] st"
  shows "\<exists>t. thread (out_layer (torch_model nu)) the_layers
              \<lparr>sizes = [B, 3, 32, 32], strides = st, vals = v\<rparr> = Inr t \<and>
            sizes t = [B, 256, 4, 4] \<and> strides t = contiguous_strides [B, 256, 4, 4]"
proof -
  let ?f = "out_layer (torch_model nu)"
  let ?x = "\<lparr>sizes = [B, 3, 32, 32], strides = st, vals = v\<rparr>"
  have x: "sizes ?x = [B, 3, 32, 32]" "strides ?x = st" by simp_all
  obtain t0 where t0: "?f (ConvBlock 3 64 5 1 2) ?x = Inr t0" "sizes t0 = [B, 64, 32, 32]"
      "strides t0 = contiguous_strides [B, 64, 32, 32]"
    using layer_step[OF x(1) x(2) layer_shapes(1) nc] by blast
  obtain t1 where t1: "?f (MaxPool2d 2 2) t0 = Inr t1" "sizes t1 = [B, 64, 16, 16]"
      "strides t1 = contiguous_strides [B, 64, 16, 16]"
    using layer_step[OF t0(2) t0(3) layer_shapes(2) contiguous_not_channels_last(1)] by blast
  obtain t2 where t2: "?f (ConvBlock 64 192 5 1 2) t1 = Inr t2" "sizes t2 = [B, 192, 16, 16]"
      "strides t2 = contiguous_strides [B, 192, 16, 16]"
    using layer_step[OF t1(2) t1(3) layer_shapes(3) contiguous_not_channels_last(2)] by blast
  obtain t3 where t3: "?f (MaxPool2d 2 2) t2 = Inr t3" "sizes t3 = [B, 192, 8, 8]"
      "strides t3 = contiguous_strides [B, 192, 8, 8]"
    using layer_step[OF t2(2) t2(3) layer_shapes(4) contiguous_not_channels_last(3)] by blast
  obtain t4 where t4: "?f (SignatureConv 192 384 3 1 1) t3 = Inr t4" "sizes t4 = [B, 384, 8, 8]"
      "strides t4 = contiguous_strides [B, 384, 8, 8]"
    using layer_step[OF t3(2) t3(3) layer_shapes(5) contiguous_not_channels_last(4)] by blast
  obtain t5 where t5: "?f (SignatureConv 384 256 3 1 1) t4 = Inr t5" "sizes t5 = [B, 256, 8, 8]"
      "strides t5 = contiguous_strides [B, 256, 8, 8]"
    using layer_step[OF t4(2) t4(3) layer_shapes(6) contiguous_not_channels_last(5)] by blast
  obtain t6 where t6: "?f (SignatureConv 256 256 3 1 1) t5 = Inr t6" "sizes t6 = [B, 256, 8, 8]"
      "strides t6 = contiguous_strides [B, 256, 8, 8]"
    using layer_step[OF t5(2) t5(3) layer_shapes(7) contiguous_not_channels_last(6)] by blast
  obtain t7 where t7: "?f (MaxPool2d 2 2) t6 = Inr t7" "sizes t7 = [B, 256, 4, 4]"
      "strides t7 = contiguous_strides [B, 256, 4, 4]"
    using layer_step[OF t6(2) t6(3) layer_shapes(8) contiguous_not_channels_last(6)] by blast
  have "thread ?f the_layers ?x = Inr t7"
    by (simp only: thread_the_layers t0(1) t1(1) t2(1) t3(1) t4(1) t5(1) t6(1) t7(1) ebind_def
        sum.case)
  with t7 show ?thesis by blast
qed

lemma layers_channels_last:
  assumes cl: "is_channels_last [B, 3, 32, 32] st"
  shows "\<exists>t. thread (out_layer (torch_model nu)) the_layers
              \<lparr>sizes = [B, 3, 32, 32], strides = st, vals = v\<rparr> = Inr t \<and>
            sizes t = [B, 256, 4, 4] \<and> strides t = channels_last_strides [B, 256, 4, 4]"
proof -
  let ?f = "out_layer (torch_model nu)"
  let ?x = "\<lparr>sizes = [B, 3, 32, 32], strides = st, vals = v\<rparr>"
  have x: "sizes ?x = [B, 3, 32, 32]" "strides ?x = st" by simp_all
  from cl have B: "0 < B" by (auto simp: is_channels_last_def split: list.splits)
  obtain t0 where t0: "?f (ConvBlock 3 64 5 1 2) ?x = Inr t0" "sizes t0 = [B, 64, 32, 32]"
      "strides t0 = channels_last_strides [B, 64, 32, 32]"
    using layer_step_channels_last[OF x(1) x(2) layer_shapes(1) cl] by blast
  obtain t1 where t1: "?f (MaxPool2d 2 2) t0 = Inr t1" "sizes t1 = [B, 64, 16, 16]"
      "strides t1 = channels_last_strides [B, 64, 16, 16]"
    using layer_step_channels_last[OF t0(2) t0(3) layer_shapes(2) channels_last_kept(1)[OF B]] by blast
  obtain t2 where t2: "?f (ConvBlock 64 192 5 1 2) t1 = Inr t2" "sizes t2 = [B, 192, 16, 16]"
      "strides t2 = channels_last_strides [B, 192, 16, 16]"
    using layer_step_channels_last[OF t1(2) t1(3) layer_shapes(3) channels_last_kept(2)[OF B]] by blast
  obtain t3 where t3: "?f (MaxPool2d 2 2) t2 = Inr t3" "sizes t3 = [B, 192, 8, 8]"
      "strides t3 = channels_last_strides [B, 192, 8, 8]"
    using layer_step_channels_last[OF t2(2) t2(3) layer_shapes(4) channels_last_kept(3)[OF B]] by blast
  obtain t4 where t4: "?f (SignatureConv 192 384 3 1 1) t3 = Inr t4" "sizes t4 = [B, 384, 8, 8]"
      "strides t4 = channels_last_strides [B, 384, 8, 8]"
    using layer_step_channels_last[OF t3(2) t3(3) layer_shapes(5) channels_last_kept(4)[OF B]] by blast
  obtain t5 where t5: "?f (SignatureConv 384 256 3 1 1) t4 = Inr t5" "sizes t5 = [B, 256, 8, 8]"
      "strides t5 = channels_last_strides [B, 256, 8, 8]"
    using layer_step_channels_last[OF t4(2) t4(3) layer_shapes(6) channels_last_kept(5)[OF B]] by blast
  obtain t6 where t6: "?f (SignatureConv 256 256 3 1 1) t5 = Inr t6" "sizes t6 = [B, 256, 8, 8]"
      "strides t6 = channels_last_strides [B, 256, 8, 8]"
    using layer_step_channels_last[OF t5(2) t5(3) layer_shapes(7) channels_last_kept(6)[OF B]] by blast
  obtain t7 where t7: "?f (MaxPool2d 2 2) t6 = Inr t7" "sizes t7 = [B, 256, 4, 4]"
      "strides t7 = channels_last_strides [B, 256, 4, 4]"
    using layer_step_channels_last[OF t6(2) t6(3) layer_shapes(8) channels_last_kept(6)[OF B]] by blast
  have "thread ?f the_layers ?x = Inr t7"
    by (simp only: thread_the_layers t0(1) t1(1) t2(1) t3(1) t4(1) t5(1) t6(1) t7(1) ebind_def
        sum.case)
  with t7 show ?thesis by blast
qed

lemma flatten_contiguous:
  assumes "sizes t = [B, 256, 4, 4]" and "strides t = contiguous_strides [B, 256, 4, 4]"
    and "0 < B"
  shows "flatten (torch_model nu) t = Inr \<lparr>sizes = [B, 4096], strides = [4096, 1], vals = vals t\<rparr>"
proof -
  have sz: "tensor_size (torch_model nu) t 0 = Inr B"
    using assms(1) by (simp add: torch_model_def size_tensor_def)
  have inf: "infer_size [int B, - 1] (B * 4096) = Inr [B, 4096]"
    using assms(3) by (simp add: infer_size_def)
  have "4096 < B * 4096 \<or> B = 1" using assms(3) by arith
  then have cs: "compute_stride [B, 256, 4, 4] [4096, 16, 4, 1] [B, 4096] = Some [4096, 1]"
    using assms(3) by (auto simp: compute_stride_def chunk_ends_def)
  have "tensor_view (torch_model nu) t [int B, - 1] =
      Inr \<lparr>sizes = [B, 4096], strides = [4096, 1], vals = vals t\<rparr>"
    using inf cs assms(1,2) by (simp add: torch_model_def view_tensor_def)
  with sz show ?thesis by (simp add: flatten_def ebind_def)
qed

lemma flatten_empty:
  assumes "sizes t = [0, 256, 4, 4]"
  shows "flatten (torch_model nu) t = Inl RuntimeError"
  using assms
  by (simp add: flatten_def ebind_def torch_model_def size_tensor_def view_tensor_def
      infer_size_def)

lemma flatten_channels_last:
  assumes "sizes t = [2, 256, 4, 4]" and "strides t = channels_last_strides [2, 256, 4, 4]"
  shows "flatten (torch_model nu) t = Inl RuntimeError"
proof -
  have sz: "tensor_size (torch_model nu) t 0 = Inr 2"
    using assms(1) by (simp add: torch_model_def size_tensor_def)
  have inf: "infer_size [2, - 1] 8192 = Inr [2, 4096]"
    by (simp add: infer_size_def)
  have cs: "compute_stride [2, 256, 4, 4] [4096, 1, 1024, 256] [2, 4096] = None"
    by (simp add: compute_stride_def chunk_ends_def)
  have "tensor_view (torch_model nu) t [2, - 1] = Inl RuntimeError"
    using inf cs assms by (simp add: torch_model_def view_tensor_def channels_last_strides_def)
  with sz show ?thesis by (simp add: flatten_def ebind_def)
qed

lemma linear_on_flat:
  assumes "sizes t = [B, 4096]" and "in_features c = 4096"
  shows "fst (call_linear (torch_model nu) c t) =
     Inr \<lparr>sizes = [B, out_features c], strides = contiguous_strides [B, out_features c],
          vals = map (linear_val nu c t) [0..<B * out_features c]\<rparr>"
  using assms by (simp add: torch_model_def linear_tensor_def linear_shape_def)

lemma scores_tensor:
  assumes "\<not> is_channels_last [B, 3, 32, 32] st" and "0 < B" and "in_features c = 4096"
  shows "\<exists>s. scores (torch_model nu) the_layers c
              \<lparr>sizes = [B, 3, 32, 32], strides = st, vals = v\<rparr> = Inr s \<and>
            sizes s = [B, out_features c] \<and> length (vals s) = B * out_features c"
proof -
  obtain t where t: "thread (out_layer (torch_model nu)) the_layers
      \<lparr>sizes = [B, 3, 32, 32], strides = st, vals = v\<rparr> = Inr t"
      "sizes t = [B, 256, 4, 4]" "strides t = contiguous_strides [B, 256, 4, 4]"
    using layers_contiguous[OF assms(1)] by blast
  have f: "flatten (torch_model nu) t =
      Inr \<lparr>sizes = [B, 4096], strides = [4096, 1], vals = vals t\<rparr>"
    using flatten_contiguous[OF t(2,3) assms(2)] .
  have l: "fst (call_linear (torch_model nu) c
        \<lparr>sizes = [B, 4096], strides = [4096, 1], vals = vals t\<rparr>) =
      Inr \<lparr>sizes = [B, out_features c], strides = contiguous_strides [B, out_features c],
          vals = map (linear_val nu c \<lparr>sizes = [B, 4096], strides = [4096, 1], vals = vals t\<rparr>)
            [0..<B * out_features c]\<rparr>"
    by (rule linear_on_flat) (simp_all add: assms(3))
  have "scores (torch_model nu) the_layers c \<lparr>sizes = [B, 3, 32, 32], strides = st, vals = v\<rparr> =
      Inr \<lparr>sizes = [B, out_features c], strides = contiguous_strides [B, out_features c],
          vals = map (linear_val nu c \<lparr>sizes = [B, 4096], strides = [4096, 1], vals = vals t\<rparr>)
            [0..<B * out_features c]\<rparr>"
    by (simp only: scores_def t(1) f l ebind_def sum.case)
  then show ?thesis by simp
qed

lemma scores_empty:
  "scores (torch_model nu) the_layers c \<lparr>sizes = [0, 3, 32, 32], strides = st, vals = v\<rparr> =
     Inl RuntimeError"
proof -
  have "\<exists>t. thread (out_layer (torch_model nu)) the_layers
              \<lparr>sizes = [0, 3, 32, 32], strides = st, vals = v\<rparr> = Inr t \<and>
            sizes t = [0, 256, 4, 4]"
  proof (cases "is_channels_last [0, 3, 32, 32] st")
    case True
    from layers_channels_last[OF True] show ?thesis by blast
  next
    case False
    from layers_contiguous[OF False] show ?thesis by blast
  qed
  then obtain t where t: "thread (out_layer (torch_model nu)) the_layers
      \<lparr>sizes = [0, 3, 32, 32], strides = st, vals = v\<rparr> = Inr t" "sizes t = [0, 256, 4, 4]"
    by blast
  show ?thesis
    by (simp only: scores_def t(1) flatten_empty[OF t(2)] ebind_def sum.case)
qed

lemma scores_channels_last:
  "scores (torch_model nu) the_layers c
     \<lparr>sizes = [2, 3, 32, 32], strides = [3072, 1, 96, 3], vals = v\<rparr> = Inl RuntimeError"
proof -
  have cl: "is_channels_last [2, 3, 32, 32] [3072, 1, 96, 3]"
    by (simp add: is_channels_last_def)
  obtain t where t: "thread (out_layer (torch_model nu)) the_layers
      \<lparr>sizes = [2, 3, 32, 32], strides = [3072, 1, 96, 3], vals = v\<rparr> = Inr t"
      "sizes t = [2, 256, 4, 4]" "strides t = channels_last_strides [2, 256, 4, 4]"
    using layers_channels_last[OF cl] by blast
  show ?thesis
    by (simp only: scores_def t(1) flatten_channels_last[OF t(2,3)] ebind_def sum.case)
qed






subsection \<open>Facts about \<^verbatim>\<open>forward\<close> on tensors\<close>

lemma out_layer_torch_model: "out_layer (torch_model nu) l t = layer_tensor nu l t"
  by (simp add: out_layer_def torch_model_def)

lemma effect_free_torch_model: "effect_free (torch_model nu)"
  by (simp add: effect_free_def torch_model_def)

lemma features_forward:
  "features (snd (forward T self x)) = snd (for_m (call_layer T) (features self) x)"
proof -
  obtain r1 fs where f: "for_m (call_layer T) (features self) x = (r1, fs)"
    by (cases "for_m (call_layer T) (features self) x")
  show ?thesis
  proof (cases r1)
    case (Inl e)
    with f show ?thesis by (simp add: forward_def)
  next
    case r1: (Inr x1)
    show ?thesis
    proof (cases "tensor_size T x1 0")
      case (Inl e)
      with f r1 show ?thesis by (simp add: forward_def)
    next
      case sz: (Inr n)
      show ?thesis
      proof (cases "tensor_view T x1 [int n, - 1]")
        case (Inl e)
        with f r1 sz show ?thesis by (simp add: forward_def)
      next
        case vw: (Inr x2)
        obtain r3 c where l: "call_linear T (classifier self) x2 = (r3, c)"
          by (cases "call_linear T (classifier self) x2")
        from f r1 sz vw l show ?thesis
          by (cases r3) (simp_all add: forward_def Let_def)
      qed
    qed
  qed
qed

lemma for_m_counting:
  "thread (layer_tensor nu) (map fst ms) x = Inr t \<Longrightarrow>
   for_m (call_layer (counting_model nu)) ms x = (Inr t, map (\<lambda>m. (fst m, Suc (snd m))) ms)"
proof (induction ms arbitrary: x)
  case Nil
  then show ?case by simp
next
  case (Cons m ms)
  from Cons.prems obtain y where y: "layer_tensor nu (fst m) x = Inr y"
    and r: "thread (layer_tensor nu) (map fst ms) y = Inr t"
    by (cases "layer_tensor nu (fst m) x") (simp_all add: ebind_def)
  have c: "call_layer (counting_model nu) m x = (Inr y, (fst m, Suc (snd m)))"
    by (simp add: counting_model_def y)
  from Cons.IH[OF r] c show ?case by simp
qed


lemma fst_forward_train:
  "fst (forward T (m\<lparr>training := True\<rparr>) x) = scores T (features m) (classifier m) x"
  by (simp add: fst_forward ebind_def split: sum.splits)

lemma fst_forward_eval:
  "fst (forward T (m\<lparr>training := False\<rparr>) x) =
     ebind (scores T (features m) (classifier m) x) (\<lambda>y. softmax T y 1)"
  by (simp add: fst_forward)

section \<open>The claims\<close>

text \<open>
  Claim C1. For every model constructed with \<^verbatim>\<open>num_classes = N\<close>, \<^verbatim>\<open>forward\<close> in
  training mode passes the input through the 8 layers of the pipeline in order, flattens
  the result per example, applies the linear classifier and returns its output as it is,
  with no softmax: this is the first conjunct, for any interpretation \<open>T\<close> of the
  primitives and any input. On a batch of sizes \<open>(B, 3, 32, 32)\<close> that has at least one
  example and whose strides do not read as channels-last, the run on tensors returns
  scores of sizes \<open>(B, N)\<close>, with \<open>B * N\<close> elements: this is the second conjunct, for
  any numbers the layers compute.

  Both conditions on the batch are needed, because the flattening
  \<^verbatim>\<open>x.view(x.size(0), -1)\<close> raises otherwise. On an empty batch the extent \<^verbatim>\<open>-1\<close>
  stands for cannot be inferred. On a channels-last batch every layer returns a
  channels-last tensor, and the last one, of sizes \<open>(B, 256, 4, 4)\<close>, has no view of
  sizes \<open>(B, 4096)\<close>: its channels are not contiguous in memory. The closed fact after
  the witness runs a model constructed with \<open>N = 10\<close> on an empty batch and on a
  channels-last batch of two examples; both runs raise.
\<close>

theorem forward_training_scores:
  assumes "SignAlexNet_init nn_Linear N = Inr m" and "0 < B"
    and "\<not> is_channels_last [B, 3, 32, 32] st"
  shows "fst (forward T (m\<lparr>training := True\<rparr>) x) =
       ebind (out_layer T (ConvBlock 3 64 5 1 2) x) (\<lambda>x.
       ebind (out_layer T (MaxPool2d 2 2) x) (\<lambda>x.
       ebind (out_layer T (ConvBlock 64 192 5 1 2) x) (\<lambda>x.
       ebind (out_layer T (MaxPool2d 2 2) x) (\<lambda>x.
       ebind (out_layer T (SignatureConv 192 384 3 1 1) x) (\<lambda>x.
       ebind (out_layer T (SignatureConv 384 256 3 1 1) x) (\<lambda>x.
       ebind (out_layer T (SignatureConv 256 256 3 1 1) x) (\<lambda>x.
       ebind (out_layer T (MaxPool2d 2 2) x) (\<lambda>x.
       ebind (flatten T x) (\<lambda>x.
       fst (call_linear T (classifier m) x)))))))))) \<and>
     (\<exists>s. fst (forward (torch_model nu) (m\<lparr>training := True\<rparr>)
               \<lparr>sizes = [B, 3, 32, 32], strides = st, vals = v\<rparr>) = Inr s \<and>
          sizes s = [B, nat N] \<and> length (vals s) = B * nat N)"
proof -
  from assms(1) have f: "features m = the_layers"
    and l: "nn_Linear 4096 N = Inr (classifier m)"
    by (rule init_Inr)+
  from nn_Linear_Inr[OF l]
  have c: "in_features (classifier m) = 4096" "out_features (classifier m) = nat N"
    by auto
  have "fst (forward T (m\<lparr>training := True\<rparr>) x) = scores T the_layers (classifier m) x"
    by (simp only: fst_forward_train f)
  then have one: "fst (forward T (m\<lparr>training := True\<rparr>) x) =
       ebind (out_layer T (ConvBlock 3 64 5 1 2) x) (\<lambda>x.
       ebind (out_layer T (MaxPool2d 2 2) x) (\<lambda>x.
       ebind (out_layer T (ConvBlock 64 192 5 1 2) x) (\<lambda>x.
       ebind (out_layer T (MaxPool2d 2 2) x) (\<lambda>x.
       ebind (out_layer T (SignatureConv 192 384 3 1 1) x) (\<lambda>x.
       ebind (out_layer T (SignatureConv 384 256 3 1 1) x) (\<lambda>x.
       ebind (out_layer T (SignatureConv 256 256 3 1 1) x) (\<lambda>x.
       ebind (out_layer T (MaxPool2d 2 2) x) (\<lambda>x.
       ebind (flatten T x) (\<lambda>x.
       fst (call_linear T (classifier m) x))))))))))"
    by (simp add: scores_def thread_the_layers ebind_def split: sum.splits)
  have "fst (forward (torch_model nu) (m\<lparr>training := True\<rparr>)
        \<lparr>sizes = [B, 3, 32, 32], strides = st, vals = v\<rparr>) =
      scores (torch_model nu) the_layers (classifier m)
        \<lparr>sizes = [B, 3, 32, 32], strides = st, vals = v\<rparr>"
    by (simp only: fst_forward_train f)
  with scores_tensor[OF assms(3) assms(2) c(1), of nu v] c(2)
  have two: "\<exists>s. fst (forward (torch_model nu) (m\<lparr>training := True\<rparr>)
               \<lparr>sizes = [B, 3, 32, 32], strides = st, vals = v\<rparr>) = Inr s \<and>
          sizes s = [B, nat N] \<and> length (vals s) = B * nat N"
    by simp
  from one two show ?thesis by (rule conjI)
qed

theorem forward_training_scores_witness:
  "SignAlexNet_init nn_Linear 10 = Inr \<lparr>features = the_layers, classifier = \<lparr>in_features = 4096, out_features = 10\<rparr>,
      training = True\<rparr> \<and>
   (0::nat) < 2 \<and> \<not> is_channels_last [2, 3, 32, 32] [3072, 1024, 32, 1] \<and>
   (\<exists>s. fst (forward (torch_model zero_numerics) \<lparr>features = the_layers, classifier = \<lparr>in_features = 4096, out_features = 10\<rparr>,
      training = True\<rparr>
             \<lparr>sizes = [2, 3, 32, 32], strides = [3072, 1024, 32, 1], vals = zeros 6144\<rparr>) = Inr s \<and>
        sizes s = [2, 10] \<and> length (vals s) = 20)"
proof -
  have h: "SignAlexNet_init nn_Linear 10 = Inr \<lparr>features = the_layers, classifier = \<lparr>in_features = 4096, out_features = 10\<rparr>,
      training = True\<rparr>"
    by (simp add: init_nn_Linear)
  have b: "(0::nat) < 2" by simp
  have n: "\<not> is_channels_last [2, 3, 32, 32] [3072, 1024, 32, 1]"
    by (simp add: is_channels_last_def)
  from forward_training_scores[OF h b n, of _ _ zero_numerics "zeros 6144", THEN conjunct2]
  have "\<exists>s. fst (forward (torch_model zero_numerics) \<lparr>features = the_layers, classifier = \<lparr>in_features = 4096, out_features = 10\<rparr>,
      training = True\<rparr>
             \<lparr>sizes = [2, 3, 32, 32], strides = [3072, 1024, 32, 1], vals = zeros 6144\<rparr>) = Inr s \<and>
        sizes s = [2, 10] \<and> length (vals s) = 20"
    by simp
  with h b n show ?thesis by blast
qed

theorem forward_training_scores_counterexample:
  "SignAlexNet_init nn_Linear 10 = Inr \<lparr>features = the_layers, classifier = \<lparr>in_features = 4096, out_features = 10\<rparr>,
      training = True\<rparr> \<and>
   fst (forward (torch_model zero_numerics) \<lparr>features = the_layers, classifier = \<lparr>in_features = 4096, out_features = 10\<rparr>,
      training = True\<rparr>
     \<lparr>sizes = [0, 3, 32, 32], strides = [3072, 1024, 32, 1], vals = []\<rparr>) = Inl RuntimeError \<and>
   fst (forward (torch_model zero_numerics) \<lparr>features = the_layers, classifier = \<lparr>in_features = 4096, out_features = 10\<rparr>,
      training = True\<rparr>
     \<lparr>sizes = [2, 3, 32, 32], strides = [3072, 1, 96, 3], vals = zeros 6144\<rparr>) = Inl RuntimeError"
proof -
  let ?m = "\<lparr>features = the_layers, classifier = \<lparr>in_features = 4096, out_features = 10\<rparr>,
      training = True\<rparr>"
  have m: "?m = ?m\<lparr>training := True\<rparr>" by simp
  have h: "SignAlexNet_init nn_Linear 10 = Inr ?m"
    by (simp add: init_nn_Linear)
  have e: "fst (forward (torch_model zero_numerics) ?m
     \<lparr>sizes = [0, 3, 32, 32], strides = [3072, 1024, 32, 1], vals = []\<rparr>) = Inl RuntimeError"
    by (subst m, simp only: fst_forward_train SignAlexNet.select_convs scores_empty)
  have c: "fst (forward (torch_model zero_numerics) ?m
     \<lparr>sizes = [2, 3, 32, 32], strides = [3072, 1, 96, 3], vals = zeros 6144\<rparr>) = Inl RuntimeError"
    by (subst m, simp only: fst_forward_train SignAlexNet.select_convs scores_channels_last)
  from h e c show ?thesis by blast
qed

text \<open>
  Claim C2. For every input \<open>x\<close>, every interpretation of the primitives and every
  model object, the two calls of \<^verbatim>\<open>forward\<close> that differ in the model's mode flag
  only are related as follows. The call in training mode returns the scores: the
  classifier's output on the flattened result of the 8 layers. The call in evaluation
  mode returns the softmax along dimension 1 of these scores, that is, of what the call
  in training mode returns; where the call in training mode raises, the call in
  evaluation mode raises the same error. The witness is a run on tensors in which both
  calls return.
\<close>

theorem eval_is_softmax_of_train:
  "fst (forward T (self\<lparr>training := True\<rparr>) x) =
     scores T (features self) (classifier self) x \<and>
   fst (forward T (self\<lparr>training := False\<rparr>) x) =
     ebind (scores T (features self) (classifier self) x) (\<lambda>y. softmax T y 1) \<and>
   fst (forward T (self\<lparr>training := False\<rparr>) x) =
     ebind (fst (forward T (self\<lparr>training := True\<rparr>) x)) (\<lambda>y. softmax T y 1)"
  by (simp only: fst_forward_train fst_forward_eval simp_thms)

theorem eval_is_softmax_of_train_witness:
  "\<exists>s y. fst (forward (torch_model zero_numerics) \<lparr>features = the_layers, classifier = \<lparr>in_features = 4096, out_features = 2\<rparr>,
      training = True\<rparr>
             \<lparr>sizes = [1, 3, 32, 32], strides = [3072, 1024, 32, 1], vals = zeros 3072\<rparr>) = Inr s \<and>
         sizes s = [1, 2] \<and>
         fst (forward (torch_model zero_numerics) \<lparr>features = the_layers, classifier = \<lparr>in_features = 4096, out_features = 2\<rparr>,
      training = False\<rparr>
             \<lparr>sizes = [1, 3, 32, 32], strides = [3072, 1024, 32, 1], vals = zeros 3072\<rparr>) = Inr y \<and>
         softmax_tensor s 1 = Inr y"
proof -
  let ?m = "\<lparr>features = the_layers, classifier = \<lparr>in_features = 4096, out_features = 2\<rparr>,
      training = True\<rparr>"
  let ?x = "\<lparr>sizes = [1, 3, 32, 32], strides = [3072, 1024, 32, 1], vals = zeros 3072\<rparr>"
  have n: "\<not> is_channels_last [1, 3, 32, 32] [3072, 1024, 32, 1]"
    by (simp add: is_channels_last_def)
  from scores_tensor[OF n, of "\<lparr>in_features = 4096, out_features = 2\<rparr>" zero_numerics "zeros 3072"]
  obtain s where s: "scores (torch_model zero_numerics) the_layers
      \<lparr>in_features = 4096, out_features = 2\<rparr> ?x = Inr s" "sizes s = [1, 2]"
    by auto
  from eval_is_softmax_of_train[of "torch_model zero_numerics" ?m ?x]
  have t: "fst (forward (torch_model zero_numerics) (?m\<lparr>training := True\<rparr>) ?x) =
      scores (torch_model zero_numerics) (features ?m) (classifier ?m) ?x"
    and e: "fst (forward (torch_model zero_numerics) (?m\<lparr>training := False\<rparr>) ?x) =
      ebind (fst (forward (torch_model zero_numerics) (?m\<lparr>training := True\<rparr>) ?x))
        (\<lambda>y. softmax (torch_model zero_numerics) y 1)"
    by blast+
  from t s have t': "fst (forward (torch_model zero_numerics) ?m ?x) = Inr s" by simp
  have sm: "softmax (torch_model zero_numerics) s 1 = softmax_tensor s 1"
    by (simp add: torch_model_def)
  have y: "softmax_tensor s 1 = Inr (s\<lparr>vals := softmax_vals (sizes s) 1 (vals s)\<rparr>)"
    using s(2) by (simp add: softmax_tensor_def)
  from e t' sm y
  have "fst (forward (torch_model zero_numerics) \<lparr>features = the_layers, classifier = \<lparr>in_features = 4096, out_features = 2\<rparr>,
      training = False\<rparr> ?x) =
      Inr (s\<lparr>vals := softmax_vals (sizes s) 1 (vals s)\<rparr>)"
    by (simp add: ebind_def)
  with t' s(2) y show ?thesis by blast
qed

text \<open>
  Claim C3. For every \<^verbatim>\<open>num_classes\<close>, the pipeline of a constructed model has exactly
  8 stages; the stages at positions 1, 3 and 7 are max-pooling layers, those at positions
  4, 5 and 6 are \<^verbatim>\<open>SignatureConv\<close> blocks, and those at positions 0 and 2 are
  \<^verbatim>\<open>ConvBlock\<close> blocks.
\<close>

theorem pipeline_roles:
  assumes "SignAlexNet_init Linear num_classes = Inr m"
  shows "length (features m) = 8 \<and>
    (\<forall>i<8. is_MaxPool2d (features m ! i) = (i \<in> {1, 3, 7}) \<and>
            is_SignatureConv (features m ! i) = (i \<in> {4, 5, 6}) \<and>
            is_ConvBlock (features m ! i) = (i \<in> {0, 2}))"
proof -
  from assms have f: "features m = the_layers" by (rule init_Inr)
  have "length the_layers = 8" by (simp add: the_layers_def)
  moreover have "\<forall>i<8. is_MaxPool2d (the_layers ! i) = (i \<in> {1, 3, 7}) \<and>
            is_SignatureConv (the_layers ! i) = (i \<in> {4, 5, 6}) \<and>
            is_ConvBlock (the_layers ! i) = (i \<in> {0, 2})"
    unfolding all_less_8 by (simp add: nth_the_layers)
  ultimately show ?thesis by (simp only: f) 
qed

theorem pipeline_roles_witness:
  "SignAlexNet_init nn_Linear 10 =
     Inr \<lparr>features = the_layers, classifier = \<lparr>in_features = 4096, out_features = 10\<rparr>,
          training = True\<rparr> \<and>
   length the_layers = 8 \<and> is_MaxPool2d (the_layers ! 7) \<and> is_SignatureConv (the_layers ! 4) \<and>
   is_ConvBlock (the_layers ! 2)"
proof -
  have h: "SignAlexNet_init nn_Linear 10 =
     Inr \<lparr>features = the_layers, classifier = \<lparr>in_features = 4096, out_features = 10\<rparr>,
          training = True\<rparr>"
    by (simp add: init_nn_Linear)
  from pipeline_roles[OF h] h show ?thesis by simp
qed

text \<open>
  Claim C4. In the constructed pipeline the convolutional stage at position 0 takes 3
  input channels, and every later convolutional stage takes as many input channels as
  the most recent convolutional stage before it puts out: 64 at position 2, 192 at
  position 4, 384 at position 5 and 256 at position 6. Pooling stages leave the channel
  count as it is, which is what \<open>channels_after\<close> computes over the stages before
  position \<open>i\<close>.
\<close>

theorem channel_chaining:
  assumes "SignAlexNet_init Linear num_classes = Inr m"
  shows "conv_in (features m ! 0) = 3 \<and> conv_in (features m ! 2) = 64 \<and>
    conv_in (features m ! 4) = 192 \<and> conv_in (features m ! 5) = 384 \<and>
    conv_in (features m ! 6) = 256 \<and>
    conv_in (features m ! 2) = conv_out (features m ! 0) \<and>
    conv_in (features m ! 4) = conv_out (features m ! 2) \<and>
    conv_in (features m ! 5) = conv_out (features m ! 4) \<and>
    conv_in (features m ! 6) = conv_out (features m ! 5) \<and>
    (\<forall>i<8. \<not> is_MaxPool2d (features m ! i) \<longrightarrow>
       conv_in (features m ! i) = channels_after in_channels (take i (features m)))"
proof -
  from assms have f: "features m = the_layers" by (rule init_Inr)
  have "\<forall>i<8. \<not> is_MaxPool2d (the_layers ! i) \<longrightarrow>
       conv_in (the_layers ! i) = channels_after in_channels (take i the_layers)"
    unfolding all_less_8 by (simp add: nth_the_layers) (simp add: the_layers_def in_channels_def)
  then show ?thesis by (simp add: f nth_the_layers)
qed

theorem channel_chaining_witness:
  "SignAlexNet_init nn_Linear 10 =
     Inr \<lparr>features = the_layers, classifier = \<lparr>in_features = 4096, out_features = 10\<rparr>,
          training = True\<rparr> \<and>
   \<not> is_MaxPool2d (the_layers ! 4) \<and> conv_in (the_layers ! 4) = 192 \<and>
   channels_after in_channels (take 4 the_layers) = 192"
proof -
  have h: "SignAlexNet_init nn_Linear 10 =
     Inr \<lparr>features = the_layers, classifier = \<lparr>in_features = 4096, out_features = 10\<rparr>,
          training = True\<rparr>"
    by (simp add: init_nn_Linear)
  have p: "\<not> is_MaxPool2d (the_layers ! 4)" by (simp add: nth_the_layers)
  from channel_chaining[OF h]
  have a: "\<forall>i<8. \<not> is_MaxPool2d (the_layers ! i) \<longrightarrow>
       conv_in (the_layers ! i) = channels_after in_channels (take i the_layers)"
    and c: "conv_in (the_layers ! 4) = 192"
    by simp_all
  from a[rule_format, of 4] p
  have "conv_in (the_layers ! 4) = channels_after in_channels (take 4 the_layers)"
    by simp
  with h p c show ?thesis by simp
qed

text \<open>
  Claim C5. Every convolutional stage of the constructed pipeline has stride 1, and its
  output-channel count and its (kernel, padding) pair are the entries of the tables
  \<open>oups\<close> and \<open>kp\<close> at its position; the tables are
  \<open>{0:64, 2:192, 4:384, 5:256, 6:256}\<close> and
  \<open>{0:(5,2), 2:(5,2), 4:(3,1), 5:(3,1), 6:(3,1)}\<close>.
\<close>

theorem conv_parameters:
  assumes "SignAlexNet_init Linear num_classes = Inr m"
  shows "(\<forall>i<8. \<not> is_MaxPool2d (features m ! i) \<longrightarrow>
       conv_stride (features m ! i) = 1 \<and>
       oups i = Some (conv_out (features m ! i)) \<and>
       kp i = Some (conv_kernel (features m ! i), conv_padding (features m ! i))) \<and>
    map oups [0, 2, 4, 5, 6] = [Some 64, Some 192, Some 384, Some 256, Some 256] \<and>
    map kp [0, 2, 4, 5, 6] = [Some (5, 2), Some (5, 2), Some (3, 1), Some (3, 1), Some (3, 1)] \<and>
    dom oups = {0, 2, 4, 5, 6} \<and> dom kp = {0, 2, 4, 5, 6}"
proof -
  from assms have f: "features m = the_layers" by (rule init_Inr)
  have "\<forall>i<8. \<not> is_MaxPool2d (the_layers ! i) \<longrightarrow>
       conv_stride (the_layers ! i) = 1 \<and>
       oups i = Some (conv_out (the_layers ! i)) \<and>
       kp i = Some (conv_kernel (the_layers ! i), conv_padding (the_layers ! i))"
    unfolding all_less_8 by (simp add: nth_the_layers tables)
  then show ?thesis by (simp add: f tables dom_tables)
qed

theorem conv_parameters_witness:
  "SignAlexNet_init nn_Linear 10 =
     Inr \<lparr>features = the_layers, classifier = \<lparr>in_features = 4096, out_features = 10\<rparr>,
          training = True\<rparr> \<and>
   \<not> is_MaxPool2d (the_layers ! 5) \<and> conv_stride (the_layers ! 5) = 1 \<and>
   oups 5 = Some (conv_out (the_layers ! 5)) \<and> conv_out (the_layers ! 5) = 256 \<and>
   kp 5 = Some (conv_kernel (the_layers ! 5), conv_padding (the_layers ! 5)) \<and>
   conv_kernel (the_layers ! 5) = 3 \<and> conv_padding (the_layers ! 5) = 1"
proof -
  have h: "SignAlexNet_init nn_Linear 10 =
     Inr \<lparr>features = the_layers, classifier = \<lparr>in_features = 4096, out_features = 10\<rparr>,
          training = True\<rparr>"
    by (simp add: init_nn_Linear)
  have p: "\<not> is_MaxPool2d (the_layers ! 5)" "the_layers ! 5 = SignatureConv 384 256 3 1 1"
    by (simp_all add: nth_the_layers)
  from conv_parameters[OF h] h p show ?thesis by simp
qed

text \<open>
  Claim C6. For every \<^verbatim>\<open>num_classes = N\<close> the classifier of the constructed model is
  the one linear transform \<^verbatim>\<open>nn.Linear(4 * 4 * 256, N)\<close>: its input width is 4096 and
  its output width is \<open>N\<close>. Two models constructed with different \<^verbatim>\<open>num_classes\<close>
  (2 and 10 in the witness) have the same feature pipeline.
\<close>

theorem classifier_width:
  assumes "SignAlexNet_init nn_Linear N = Inr m" and "SignAlexNet_init nn_Linear N' = Inr m'"
  shows "nn_Linear (4 * 4 * 256) N = Inr (classifier m) \<and>
    in_features (classifier m) = 4096 \<and> int (out_features (classifier m)) = N \<and>
    features m' = features m"
proof -
  from assms(1) have f: "features m = the_layers"
    and l: "nn_Linear 4096 N = Inr (classifier m)"
    by (rule init_Inr)+
  from assms(2) have f': "features m' = the_layers" by (rule init_Inr)
  from nn_Linear_Inr[OF l] l f f' show ?thesis by simp
qed

theorem classifier_width_witness:
  "SignAlexNet_init nn_Linear 2 =
     Inr \<lparr>features = the_layers, classifier = \<lparr>in_features = 4096, out_features = 2\<rparr>,
          training = True\<rparr> \<and>
   SignAlexNet_init nn_Linear 10 =
     Inr \<lparr>features = the_layers, classifier = \<lparr>in_features = 4096, out_features = 10\<rparr>,
          training = True\<rparr> \<and>
   nn_Linear (4 * 4 * 256) 2 = Inr \<lparr>in_features = 4096, out_features = 2\<rparr>"
proof -
  have h2: "SignAlexNet_init nn_Linear 2 =
     Inr \<lparr>features = the_layers, classifier = \<lparr>in_features = 4096, out_features = 2\<rparr>,
          training = True\<rparr>"
    by (simp add: init_nn_Linear)
  have h10: "SignAlexNet_init nn_Linear 10 =
     Inr \<lparr>features = the_layers, classifier = \<lparr>in_features = 4096, out_features = 10\<rparr>,
          training = True\<rparr>"
    by (simp add: init_nn_Linear)
  from classifier_width[OF h2 h10] h2 h10 show ?thesis by simp
qed




text \<open>
  Claim C8. The constructor does not look at \<^verbatim>\<open>num_classes\<close>, whatever its type and
  value: it hands it unchanged, with the width 4096, to \<^verbatim>\<open>nn.Linear\<close>. Construction
  raises exactly when that call raises, with that call's error, and no error of its own;
  otherwise it returns the model with the fixed pipeline, the classifier
  \<^verbatim>\<open>nn.Linear\<close> returned and the mode flag set.
\<close>

theorem init_defers_to_Linear:
  "SignAlexNet_init Linear num_classes =
     (case Linear 4096 num_classes of
        Inl e \<Rightarrow> Inl e
      | Inr c \<Rightarrow> Inr \<lparr>features = the_layers, classifier = c, training = True\<rparr>)"
  by (simp add: SignAlexNet_init_def build_layers_eq ebind_def)

text \<open>
  Claim C9. \<^verbatim>\<open>forward\<close> writes nothing of its own and branches on the mode flag only.
  The mode flag after a call is the flag before it; every layer object and the
  classifier are, after the call, in their place and changed at most by the call made on
  them; the result is the straight composition \<open>scores\<close> of the primitives, followed
  by softmax according to the mode flag alone. When the calls of the layers and of the
  classifier leave their objects unchanged, the whole model is unchanged.

  Without that condition the pipeline need not be left unchanged: \<^verbatim>\<open>forward\<close> calls the
  layer objects, and a layer that keeps state of its own is changed by the call. The
  closed fact after the witness runs \<^verbatim>\<open>forward\<close> on a pipeline of layers that count
  their calls: every counter is 0 before the run and 1 after it.
\<close>

theorem forward_deterministic_effect_free:
  "training (snd (forward T self x)) = training self \<and>
   list_all2 (own_call (call_layer T)) (features self) (features (snd (forward T self x))) \<and>
   own_call (call_linear T) (classifier self) (classifier (snd (forward T self x))) \<and>
   fst (forward T self x) =
     ebind (scores T (features self) (classifier self) x)
       (\<lambda>y. if training self then Inr y else softmax T y 1) \<and>
   (effect_free T \<longrightarrow> snd (forward T self x) = self)"
proof -
  have "snd (forward T self x) = self" if "effect_free T"
    using snd_forward[OF that, of self x] .
  then show ?thesis
    using training_forward[of T self x] own_call_forward[of T self x] fst_forward[of T self x]
    by blast
qed

theorem forward_deterministic_effect_free_witness:
  "effect_free (torch_model zero_numerics) \<and>
   snd (forward (torch_model zero_numerics)
     \<lparr>features = the_layers, classifier = \<lparr>in_features = 4096, out_features = 10\<rparr>,
      training = False\<rparr>
     \<lparr>sizes = [2, 3, 32, 32], strides = [3072, 1024, 32, 1], vals = zeros 6144\<rparr>) =
   \<lparr>features = the_layers, classifier = \<lparr>in_features = 4096, out_features = 10\<rparr>,
     training = False\<rparr>"
proof -
  have e: "effect_free (torch_model zero_numerics)" by (rule effect_free_torch_model)
  from forward_deterministic_effect_free[of "torch_model zero_numerics"
      "\<lparr>features = the_layers, classifier = \<lparr>in_features = 4096, out_features = 10\<rparr>,
        training = False\<rparr>"
      "\<lparr>sizes = [2, 3, 32, 32], strides = [3072, 1024, 32, 1], vals = zeros 6144\<rparr>"] e
  show ?thesis by blast
qed

theorem forward_deterministic_effect_free_counterexample:
  "map snd (features (snd (forward (counting_model zero_numerics)
     \<lparr>features =
        [(ConvBlock 3 64 5 1 2, 0), (MaxPool2d 2 2, 0), (ConvBlock 64 192 5 1 2, 0),
         (MaxPool2d 2 2, 0), (SignatureConv 192 384 3 1 1, 0),
         (SignatureConv 384 256 3 1 1, 0), (SignatureConv 256 256 3 1 1, 0),
         (MaxPool2d 2 2, 0)],
      classifier = \<lparr>in_features = 4096, out_features = 10\<rparr>, training = True\<rparr>
     \<lparr>sizes = [2, 3, 32, 32], strides = [3072, 1024, 32, 1], vals = zeros 6144\<rparr>))) =
   [1, 1, 1, 1, 1, 1, 1, 1]"
proof -
  let ?ms = "[(ConvBlock 3 64 5 1 2, 0::nat), (MaxPool2d 2 2, 0), (ConvBlock 64 192 5 1 2, 0),
         (MaxPool2d 2 2, 0), (SignatureConv 192 384 3 1 1, 0),
         (SignatureConv 384 256 3 1 1, 0), (SignatureConv 256 256 3 1 1, 0),
         (MaxPool2d 2 2, 0)]"
  let ?x = "\<lparr>sizes = [2, 3, 32, 32], strides = [3072, 1024, 32, 1], vals = zeros 6144\<rparr>"
  have fs: "map fst ?ms = the_layers" by (simp add: the_layers_def)
  have n: "\<not> is_channels_last [2, 3, 32, 32] [3072, 1024, 32, 1]"
    by (simp add: is_channels_last_def)
  have f: "out_layer (torch_model zero_numerics) = layer_tensor zero_numerics"
    by (intro ext) (rule out_layer_torch_model)
  from layers_contiguous[OF n, of zero_numerics "zeros 6144"]
  obtain t where "thread (layer_tensor zero_numerics) (map fst ?ms) ?x = Inr t"
    unfolding f fs by blast
  from for_m_counting[OF this]
  have "snd (for_m (call_layer (counting_model zero_numerics)) ?ms ?x) =
      map (\<lambda>m. (fst m, Suc (snd m))) ?ms"
    by simp
  then show ?thesis
    by (simp add: features_forward)
qed

text \<open>
  Claim C10. Every position in \<open>0..7\<close> that is not a max-pooling position is a key of
  both tables \<open>oups\<close> and \<open>kp\<close>, so the construction loop ends without a
  \<^verbatim>\<open>KeyError\<close>, for any \<^verbatim>\<open>num_classes\<close>: an error of the constructor is an error
  of \<^verbatim>\<open>nn.Linear\<close>.
\<close>

theorem table_lookups_total:
  "(\<forall>i<8. i \<notin> set maxpoolidx \<longrightarrow> i \<in> dom oups \<and> i \<in> dom kp) \<and>
   (\<exists>layers. build_layers = Inr layers) \<and>
   (\<forall>e. SignAlexNet_init Linear num_classes = Inl e \<longrightarrow>
        Linear (4 * 4 * 256) num_classes = Inl e)"
proof -
  have "\<forall>i<8. i \<notin> set maxpoolidx \<longrightarrow> i \<in> dom oups \<and> i \<in> dom kp"
    unfolding all_less_8 by (simp add: maxpoolidx_def dom_tables)
  moreover have "\<exists>layers. build_layers = Inr layers"
    by (simp add: build_layers_eq)
  moreover have "\<forall>e. SignAlexNet_init Linear num_classes = Inl e \<longrightarrow>
        Linear (4 * 4 * 256) num_classes = Inl e"
    by (simp add: init_eq split: sum.splits)
  ultimately show ?thesis by blast
qed

theorem table_lookups_total_witness:
  "(4::nat) < 8 \<and> 4 \<notin> set maxpoolidx \<and> 4 \<in> dom oups \<and> 4 \<in> dom kp \<and>
   SignAlexNet_init nn_Linear (- 1) = Inl RuntimeError \<and>
   nn_Linear (4 * 4 * 256) (- 1) = Inl RuntimeError"
proof -
  have h: "(4::nat) < 8" "4 \<notin> set maxpoolidx" by (simp_all add: maxpoolidx_def)
  have i: "SignAlexNet_init nn_Linear (- 1) = Inl RuntimeError"
    by (simp add: init_eq nn_Linear_def)
  from table_lookups_total[of nn_Linear "- 1"]
  have a: "\<forall>i<8. i \<notin> set maxpoolidx \<longrightarrow> i \<in> dom oups \<and> i \<in> dom kp"
    and b: "\<forall>e. SignAlexNet_init nn_Linear (- 1) = Inl e \<longrightarrow>
        nn_Linear (4 * 4 * 256) (- 1) = Inl e"
    by blast+
  from a[rule_format, of 4] h have "4 \<in> dom oups \<and> 4 \<in> dom kp" by simp
  moreover from b[rule_format, OF i] have "nn_Linear (4 * 4 * 256) (- 1) = Inl RuntimeError" .
  ultimately show ?thesis using h i by simp
qed

end
